theory Spec2Isabelle
  imports Complex_Main "HOL-Library.Multiset"
begin

section \<open>Host functions\<close>

text \<open>
  The page and the widget call functions of the JavaScript host and of two libraries
  that are not part of the repository: \<^verbatim>\<open>String.prototype.toLowerCase\<close>, the
  order of two strings under \<^verbatim>\<open><\<close> (by UTF-16 code units), the conversion of a
  string to a number that the relational operators apply when a string meets a
  non-string, \<^verbatim>\<open>new Date(string)\<close>, and \<^verbatim>\<open>moment(x).format(f)\<close>.
  They are taken as parameters, collected in one record, and every result below holds
  for every value of that record unless it says otherwise.

  Strings are lists of characters. Numbers are rationals: the arithmetic of the model is
  exact, where the host rounds to a double. A missing number (\<^verbatim>\<open>NaN\<close>) is \<open>None\<close>.
\<close>

record host =
  toLowerCase :: "string \<Rightarrow> string"
  StringLess :: "string \<Rightarrow> string \<Rightarrow> bool"
  StringToNumber :: "string \<Rightarrow> rat option"
  DateParse :: "string \<Rightarrow> rat option"
  momentFormat :: "string option \<Rightarrow> string \<Rightarrow> string"

section \<open>Data model of the user administration page\<close>

text \<open>
  A row of the \<^verbatim>\<open>users\<close> table as the backend returns it. A column that is
  \<^verbatim>\<open>null\<close> is \<open>None\<close>; the \<^verbatim>\<open>banned\<close> column is only ever tested for
  truthiness, so \<^verbatim>\<open>null\<close> and \<^verbatim>\<open>false\<close> are both \<open>False\<close>.
\<close>

record user_row =
  user_id :: nat
  name :: "string option"
  email :: "string option"
  created_at :: "string option"
  credits :: "int option"
  banned :: bool
  interview_id :: "string option"

text \<open>The enriched view \<^verbatim>\<open>{...user, interviewCount, candidateCount}\<close>.\<close>

record user = user_row +
  interviewCount :: nat
  candidateCount :: nat

datatype sort_key = SortCreatedAt | SortName | SortEmail | SortInterviewCount

datatype sort_order = Asc | Desc

datatype js_error = BackendError string | TypeError

datatype toast = ToastSuccess string | ToastError string

datatype request =
    ListUsers
  | CountInterviews "string option"
  | CountResults "string option"
  | DeleteInterviews "string option"
  | DeleteResults "string option"
  | DeleteUser nat

text \<open>
  The state of the component (its seven \<^verbatim>\<open>useState\<close> cells), together with the
  three things it does to the outside: the notifications shown, the lines written with
  \<^verbatim>\<open>console.error\<close>, and the requests sent to the backend, each in order.
\<close>

record page_state =
  users :: "user list"
  filteredUsers :: "user list"
  loading :: bool
  searchTerm :: string
  sortBy :: sort_key
  sortOrder :: sort_order
  showBanned :: bool
  toasts :: "toast list"
  console :: "(string \<times> js_error) list"
  requests :: "request list"

section \<open>Printing numbers and joining arrays\<close>

text \<open>
  The decimal digits of a number, as \<^verbatim>\<open>String(n)\<close> gives them for an integer below
  \<open>10\<^sup>2\<^sup>1\<close> in size.
\<close>

fun show_nat :: "nat \<Rightarrow> string" where
  "show_nat n =
     (if n < 10 then [''0123456789'' ! n]
      else show_nat (n div 10) @ [''0123456789'' ! (n mod 10)])"

declare show_nat.simps [simp del]

definition show_int :: "int \<Rightarrow> string" where
  "show_int i = (if i < 0 then CHR ''-'' # show_nat (nat (- i)) else show_nat (nat i))"

text \<open>\<^verbatim>\<open>Array.prototype.join\<close> on an array of strings.\<close>

fun join :: "string \<Rightarrow> string list \<Rightarrow> string" where
  "join sep [] = []"
| "join sep [x] = x"
| "join sep (x # y # ys) = x @ sep @ join sep (y # ys)"

section \<open>Status label\<close>

text \<open>
  \<^verbatim>\<open>if (user.created_at)\<close> tests truthiness: a string is truthy when it is not empty.
\<close>

definition truthy_string :: "string option \<Rightarrow> bool" where
  "truthy_string v = (case v of None \<Rightarrow> False | Some s \<Rightarrow> s \<noteq> [])"

definition getStatusText :: "user \<Rightarrow> string" where
  "getStatusText u =
     (if banned u then ''Banned''
      else if interviewCount u > 0 then ''Active''
      else if truthy_string (created_at u) then ''Registered''
      else ''Inactive'')"

section \<open>Export\<close>

text \<open>\<^verbatim>\<open>x || 'N/A'\<close> on an optional string: the empty string is falsy as well.\<close>

definition or_NA :: "string option \<Rightarrow> string" where
  "or_NA v = (case v of None \<Rightarrow> ''N/A'' | Some s \<Rightarrow> if s = [] then ''N/A'' else s)"

text \<open>\<^verbatim>\<open>user.credits || 0\<close>.\<close>

definition or_zero :: "int option \<Rightarrow> int" where
  "or_zero v = (case v of None \<Rightarrow> 0 | Some c \<Rightarrow> c)"

definition csvHeader :: "string list" where
  "csvHeader = [''Name'', ''Email'', ''Created Date'', ''Interviews Created'',
     ''Candidates Interviewed'', ''Credits'', ''Status'']"

text \<open>
  One row of the export. \<^verbatim>\<open>join\<close> turns the three numbers into their decimal digits.
\<close>

definition csvRow :: "host \<Rightarrow> user \<Rightarrow> string list" where
  "csvRow h u =
     [or_NA (name u),
      or_NA (email u),
      momentFormat h (created_at u) ''YYYY-MM-DD HH:mm'',
      show_nat (interviewCount u),
      show_nat (candidateCount u),
      show_int (or_zero (credits u)),
      getStatusText u]"

text \<open>The text handed to the \<^verbatim>\<open>Blob\<close> by \<^verbatim>\<open>exportUsersToCSV\<close>.\<close>

definition exportUsersToCSV :: "host \<Rightarrow> page_state \<Rightarrow> string" where
  "exportUsersToCSV h st =
     join [CHR 0x0A] (map (join '','') (csvHeader # map (csvRow h) (filteredUsers st)))"

section \<open>Filter and sort\<close>

text \<open>
  \<^verbatim>\<open>String.prototype.includes\<close>: the second string occurs in the first, at some
  position; the empty string occurs in every string.
\<close>

fun includes_str :: "string \<Rightarrow> string \<Rightarrow> bool" where
  "includes_str [] t = (t = [])"
| "includes_str (c # s) t = (take (length t) (c # s) = t \<or> includes_str s t)"

text \<open>
  \<^verbatim>\<open>field?.toLowerCase().includes(searchTerm.toLowerCase())\<close>: on an absent field the
  optional chain gives \<^verbatim>\<open>undefined\<close>, which is falsy.
\<close>

definition field_matches :: "host \<Rightarrow> string option \<Rightarrow> string \<Rightarrow> bool" where
  "field_matches h field q =
     (case field of
        None \<Rightarrow> False
      | Some s \<Rightarrow> includes_str (toLowerCase h s) (toLowerCase h q))"

definition matchesSearch :: "host \<Rightarrow> string \<Rightarrow> user \<Rightarrow> bool" where
  "matchesSearch h q u = (field_matches h (name u) q \<or> field_matches h (email u) q)"

definition matchesBannedFilter :: "bool \<Rightarrow> user \<Rightarrow> bool" where
  "matchesBannedFilter show_banned u = (show_banned \<or> \<not> banned u)"

text \<open>
  The values the comparator meets: a column that is \<^verbatim>\<open>null\<close>, a string, a number,
  and a \<^verbatim>\<open>Date\<close> object, whose time value is missing when the date is invalid.
\<close>

datatype keyval = KNull | KStr string | KNum rat | KDate "rat option"

text \<open>\<^verbatim>\<open>a[sortBy]\<close> for the four keys the page offers.\<close>

definition user_field :: "sort_key \<Rightarrow> user \<Rightarrow> keyval" where
  "user_field k u =
     (case k of
        SortCreatedAt \<Rightarrow> (case created_at u of None \<Rightarrow> KNull | Some s \<Rightarrow> KStr s)
      | SortName \<Rightarrow> (case name u of None \<Rightarrow> KNull | Some s \<Rightarrow> KStr s)
      | SortEmail \<Rightarrow> (case email u of None \<Rightarrow> KNull | Some s \<Rightarrow> KStr s)
      | SortInterviewCount \<Rightarrow> KNum (of_nat (interviewCount u)))"

text \<open>
  \<^verbatim>\<open>new Date(v)\<close>: a string is parsed, \<^verbatim>\<open>null\<close> is the number 0 and so the epoch,
  a number is a time value.
\<close>

fun new_Date :: "host \<Rightarrow> keyval \<Rightarrow> keyval" where
  "new_Date h KNull = KDate (Some 0)"
| "new_Date h (KStr s) = KDate (DateParse h s)"
| "new_Date h (KNum n) = KDate (Some n)"
| "new_Date h (KDate t) = KDate t"

fun ToNumber :: "host \<Rightarrow> keyval \<Rightarrow> rat option" where
  "ToNumber h KNull = Some 0"
| "ToNumber h (KStr s) = StringToNumber h s"
| "ToNumber h (KNum n) = Some n"
| "ToNumber h (KDate t) = t"

text \<open>
  The relational operators of the host. Two strings are compared as strings; in every
  other case both sides become numbers, and a comparison with a missing number is false.
  \<^verbatim>\<open>a > b\<close> is \<^verbatim>\<open>b < a\<close>.
\<close>

fun js_less :: "host \<Rightarrow> keyval \<Rightarrow> keyval \<Rightarrow> bool" where
  "js_less h (KStr s) (KStr t) = StringLess h s t"
| "js_less h x y =
     (case (ToNumber h x, ToNumber h y) of
        (Some a, Some b) \<Rightarrow> a < b
      | _ \<Rightarrow> False)"

definition js_greater :: "host \<Rightarrow> keyval \<Rightarrow> keyval \<Rightarrow> bool" where
  "js_greater h x y = js_less h y x"

text \<open>The value of a record that the comparator compares, after its conversion.\<close>

definition sort_value :: "host \<Rightarrow> sort_key \<Rightarrow> user \<Rightarrow> keyval" where
  "sort_value h k u =
     (if k = SortCreatedAt then new_Date h (user_field k u) else user_field k u)"

text \<open>The function passed to \<^verbatim>\<open>filtered.sort\<close>.\<close>

definition comparator :: "host \<Rightarrow> sort_key \<Rightarrow> sort_order \<Rightarrow> user \<Rightarrow> user \<Rightarrow> int" where
  "comparator h k ord a b =
     (let aValue = sort_value h k a; bValue = sort_value h k b in
      if ord = Asc then (if js_greater h aValue bValue then 1 else - 1)
      else (if js_less h aValue bValue then 1 else - 1))"

text \<open>
  \<^verbatim>\<open>Array.prototype.sort\<close> with a comparison function. The function above returns
  \<open>- 1\<close> for two equal keys in either order, so it is not a consistent comparison
  function, and for such a function the language leaves the order of the result to the
  engine. The model is the algorithm of the V8 engine, which browsers of the Chromium
  family and Node.js run, for an array of fewer than 64 elements: the run found at the
  front of the array (ascending, or strictly descending and then reversed), into which
  each remaining element is inserted at the place a binary search gives. V8 cuts a longer
  array into several such runs and merges them; the merge is not modelled, and nothing
  below depends on the order of an array that long.
\<close>

text \<open>
  The run at the front: the elements after \<open>previous\<close> as long as each continues the
  run, and the elements left over.
\<close>

fun extend_run :: "('a \<Rightarrow> 'a \<Rightarrow> bool) \<Rightarrow> 'a \<Rightarrow> 'a list \<Rightarrow> 'a list \<times> 'a list" where
  "extend_run continues previous [] = ([], [])"
| "extend_run continues previous (x # xs) =
     (if continues x previous then
        (case extend_run continues x xs of (run, rest) \<Rightarrow> (x # run, rest))
      else ([], x # xs))"

text \<open>
  \<^verbatim>\<open>CountAndMakeRun\<close>: the second element is compared with the first; a negative
  result starts a descending run, which goes on while the result stays negative and is
  reversed at the end, and any other result starts an ascending run, which goes on while
  the result is not negative.
\<close>

fun CountAndMakeRun :: "('a \<Rightarrow> 'a \<Rightarrow> int) \<Rightarrow> 'a list \<Rightarrow> 'a list \<times> 'a list" where
  "CountAndMakeRun c (x0 # x1 # xs) =
     (if c x1 x0 < 0 then
        (case extend_run (\<lambda>current previous. c current previous < 0) x1 xs of
           (run, rest) \<Rightarrow> (rev (x0 # x1 # run), rest))
      else
        (case extend_run (\<lambda>current previous. 0 \<le> c current previous) x1 xs of
           (run, rest) \<Rightarrow> (x0 # x1 # run, rest)))"
| "CountAndMakeRun c xs = (xs, [])"

text \<open>
  The binary search of \<^verbatim>\<open>BinaryInsertionSort\<close> for the place of the pivot among the
  elements of the sorted part between \<open>left\<close> and \<open>right\<close>.
\<close>

function insertion_point :: "('a \<Rightarrow> 'a \<Rightarrow> int) \<Rightarrow> 'a \<Rightarrow> 'a list \<Rightarrow> nat \<Rightarrow> nat \<Rightarrow> nat" where
  "insertion_point c pivot arr left right =
     (if left < right then
        (let mid = left + (right - left) div 2 in
         if c pivot (arr ! mid) < 0 then insertion_point c pivot arr left mid
         else insertion_point c pivot arr (mid + 1) right)
      else left)"
  by pat_completeness auto
termination
  by (relation "measure (\<lambda>(c, pivot, arr, left, right). right - left)") auto

declare insertion_point.simps [simp del]

definition insert_pivot :: "('a \<Rightarrow> 'a \<Rightarrow> int) \<Rightarrow> 'a list \<Rightarrow> 'a \<Rightarrow> 'a list" where
  "insert_pivot c arr pivot =
     (let left = insertion_point c pivot arr 0 (length arr)
      in take left arr @ pivot # drop left arr)"

definition BinaryInsertionSort :: "('a \<Rightarrow> 'a \<Rightarrow> int) \<Rightarrow> 'a list \<Rightarrow> 'a list \<Rightarrow> 'a list" where
  "BinaryInsertionSort c run rest = foldl (insert_pivot c) run rest"

definition js_sort :: "('a \<Rightarrow> 'a \<Rightarrow> int) \<Rightarrow> 'a list \<Rightarrow> 'a list" where
  "js_sort c xs = (case CountAndMakeRun c xs of (run, rest) \<Rightarrow> BinaryInsertionSort c run rest)"

definition filterAndSortUsers :: "host \<Rightarrow> page_state \<Rightarrow> page_state" where
  "filterAndSortUsers h st =
     (let filtered =
            filter (\<lambda>u. matchesSearch h (searchTerm st) u \<and> matchesBannedFilter (showBanned st) u)
              (users st)
      in st\<lparr>filteredUsers := js_sort (comparator h (sortBy st) (sortOrder st)) filtered\<rparr>)"

section \<open>The backend\<close>

text \<open>
  What a call of the backend client resolves to: an object with the fields
  \<^verbatim>\<open>data\<close>, \<^verbatim>\<open>count\<close> (here \<open>count_resp\<close>) and \<^verbatim>\<open>error\<close>. The client reports a failure in
  that object and does not reject: a call has failed when \<^verbatim>\<open>error\<close> is set, which is
  the test the page applies after listing, updating and deleting.
\<close>

record response =
  data :: "user_row list option"
  count_resp :: "nat option"
  error :: "js_error option"

text \<open>
  The backend as the page sees it: the answer to each of the calls it makes. The
  argument of a count or of a dependent delete is the value given to \<^verbatim>\<open>.eq\<close>.
\<close>

record gateway =
  list_users :: response
  count_interviews :: "string option \<Rightarrow> response"
  count_results :: "string option \<Rightarrow> response"
  delete_interviews :: "string option \<Rightarrow> response"
  delete_results :: "string option \<Rightarrow> response"
  delete_user :: "nat \<Rightarrow> response"

definition failed :: "response \<Rightarrow> bool" where
  "failed r = (error r \<noteq> None)"

section \<open>Aggregation\<close>

text \<open>\<^verbatim>\<open>count || 0\<close>.\<close>

definition count_or_zero :: "nat option \<Rightarrow> nat" where
  "count_or_zero c = (case c of None \<Rightarrow> 0 | Some n \<Rightarrow> n)"

text \<open>
  The function mapped over the rows: two count lookups, of which only the field
  \<^verbatim>\<open>count\<close> is read.
\<close>

definition usersWithStats :: "gateway \<Rightarrow> user_row \<Rightarrow> user" where
  "usersWithStats gw r =
     \<lparr>user_id = user_id r, name = name r, email = email r, created_at = created_at r,
      credits = credits r, banned = banned r, interview_id = interview_id r,
      interviewCount = count_or_zero (count_resp (count_interviews gw (email r))),
      candidateCount = count_or_zero (count_resp (count_results gw (interview_id r)))\<rparr>"

definition lookups :: "user_row list \<Rightarrow> request list" where
  "lookups rows =
     map (\<lambda>r. CountInterviews (email r)) rows @ map (\<lambda>r. CountResults (interview_id r)) rows"

text \<open>The \<^verbatim>\<open>catch\<close> and \<^verbatim>\<open>finally\<close> blocks of \<^verbatim>\<open>fetchUsers\<close>.\<close>

definition fetch_failed :: "js_error \<Rightarrow> page_state \<Rightarrow> page_state" where
  "fetch_failed e st =
     st\<lparr>console := console st @ [(''Error fetching users:'', e)],
        toasts := toasts st @ [ToastError ''Failed to fetch users''],
        loading := False\<rparr>"

text \<open>
  \<^verbatim>\<open>fetchUsers\<close>. An error of the listing is thrown; \<^verbatim>\<open>data.map\<close> on a missing
  \<^verbatim>\<open>data\<close> throws a type error. The function mapped over the rows runs for every
  row up to its first \<^verbatim>\<open>await\<close>, so the counts of interviews are all requested
  first, in the order of the rows; the counts of results follow as the first answers
  come in, here in the order of the rows as well.
\<close>

definition fetchUsers :: "gateway \<Rightarrow> page_state \<Rightarrow> page_state" where
  "fetchUsers gw st =
     (let st1 = st\<lparr>loading := True, requests := requests st @ [ListUsers]\<rparr> in
      case error (list_users gw) of
        Some e \<Rightarrow> fetch_failed e st1
      | None \<Rightarrow>
          (case data (list_users gw) of
             None \<Rightarrow> fetch_failed TypeError st1
           | Some rows \<Rightarrow>
               st1\<lparr>users := map (usersWithStats gw) rows,
                   requests := requests st1 @ lookups rows,
                   loading := False\<rparr>))"

section \<open>Cascading delete\<close>

text \<open>\<^verbatim>\<open>console.error(message, error)\<close> when the response carries an error.\<close>

definition log_error :: "string \<Rightarrow> response \<Rightarrow> page_state \<Rightarrow> page_state" where
  "log_error msg r st =
     (case error r of
        None \<Rightarrow> st
      | Some e \<Rightarrow> st\<lparr>console := console st @ [(msg, e)]\<rparr>)"

definition send :: "request \<Rightarrow> page_state \<Rightarrow> page_state" where
  "send q st = st\<lparr>requests := requests st @ [q]\<rparr>"

text \<open>\<^verbatim>\<open>users.find(u => u.id === userId)?.field\<close>.\<close>

definition find_field :: "page_state \<Rightarrow> nat \<Rightarrow> (user \<Rightarrow> string option) \<Rightarrow> string option" where
  "find_field st userId field =
     (case find (\<lambda>u. user_id u = userId) (users st) of
        None \<Rightarrow> None
      | Some u \<Rightarrow> field u)"

text \<open>
  \<^verbatim>\<open>deleteUser\<close>. The second backend is the one that answers the listing started after
  the deletion.
\<close>

definition deleteUser :: "gateway \<Rightarrow> gateway \<Rightarrow> nat \<Rightarrow> page_state \<Rightarrow> page_state" where
  "deleteUser gw gw' userId st =
     (let userEmail = find_field st userId email;
          st1 = log_error ''Error deleting interviews:'' (delete_interviews gw userEmail)
                  (send (DeleteInterviews userEmail) st);
          interviewId = find_field st userId interview_id;
          st2 = log_error ''Error deleting interview results:'' (delete_results gw interviewId)
                  (send (DeleteResults interviewId) st1);
          st3 = send (DeleteUser userId) st2
      in case error (delete_user gw userId) of
           Some e \<Rightarrow>
             st3\<lparr>console := console st3 @ [(''Error deleting user:'', e)],
                 toasts := toasts st3 @ [ToastError ''Failed to delete user'']\<rparr>
         | None \<Rightarrow>
             fetchUsers gw' (st3\<lparr>toasts := toasts st3 @ [ToastSuccess ''User deleted successfully'']\<rparr>))"

section \<open>Rating calculator of the candidate list\<close>








text \<open>
  The calculator in exact arithmetic. It is the calculator of the host wherever the
  operations of the host are exact, as they are on the small integers of the examples.
  On other scores the rounding of the host can give another result: the scores 0.1, 0.6,
  0.6 and 0.7 have the mean 0.5, which rounds to 1, where the sum of the host falls
  short of 2 and the result is 0.

  \<^verbatim>\<open>Math.round\<close> is the nearest integer, a half going up.
\<close>

definition Math_round :: "rat \<Rightarrow> int" where
  "Math_round x = \<lfloor>x + 1 / 2\<rfloor>"








section \<open>Two hosts for the examples\<close>

definition ascii_lower :: "char \<Rightarrow> char" where
  "ascii_lower c =
     (case map_of (zip ''ABCDEFGHIJKLMNOPQRSTUVWXYZ'' ''abcdefghijklmnopqrstuvwxyz'') c of
        Some l \<Rightarrow> l
      | None \<Rightarrow> c)"

text \<open>
  The order of two texts in ASCII under \<^verbatim>\<open><\<close>: lexicographic, character by
  character. In ASCII a character is one code unit, and the order of the characters is
  the order of the code units.
\<close>

fun string_less :: "string \<Rightarrow> string \<Rightarrow> bool" where
  "string_less [] [] = False"
| "string_less [] (y # ys) = True"
| "string_less (x # xs) [] = False"
| "string_less (x # xs) (y # ys) =
     (if (of_char x :: nat) < of_char y then True
      else if (of_char y :: nat) < of_char x then False
      else string_less xs ys)"

text \<open>
  A host that agrees with the real one on the strings of the examples: lower case and
  order for text in ASCII, no name or address of the examples that reads as a number,
  the two dates below as their milliseconds since the epoch, and the date column of the
  export as the date library prints it in the UTC time zone.
\<close>

definition example_host :: host where
  "example_host =
     \<lparr>toLowerCase = map ascii_lower,
      StringLess = string_less,
      StringToNumber = (\<lambda>s. None),
      DateParse = (\<lambda>s. if s = ''2024-01-01T00:00:00Z'' then Some 1704067200000
                        else if s = ''2024-01-02T00:00:00Z'' then Some 1704153600000
                        else None),
      momentFormat = (\<lambda>v f. case v of None \<Rightarrow> ''Invalid date'' | Some s \<Rightarrow> take 10 s @ '' 00:00'')\<rparr>"

text \<open>
  The lower case that the host gives to text made of ASCII characters and the Greek
  letter sigma. In UTF-8 the capital sigma is the bytes CE A3, the small sigma CF 83 and
  the final small sigma CF 82. The mapping of the host depends on the context: a capital
  sigma becomes the final small sigma when a letter stands before it and none follows
  it, and the small sigma otherwise; the apostrophe, the full stop, the colon, the caret
  and the grave accent between the sigma and a letter are passed over on either side.
\<close>

definition ascii_letter :: "char \<Rightarrow> bool" where
  "ascii_letter c =
     (c \<in> set ''ABCDEFGHIJKLMNOPQRSTUVWXYZabcdefghijklmnopqrstuvwxyz'')"

definition case_ignorable :: "char \<Rightarrow> bool" where
  "case_ignorable c = (c \<in> set [CHR 0x27, CHR ''.'', CHR '':'', CHR ''^'', CHR 0x60])"

fun letter_follows :: "string \<Rightarrow> bool" where
  "letter_follows [] = False"
| "letter_follows (c # cs) =
     (if case_ignorable c then letter_follows cs
      else ascii_letter c \<or> c = CHR 0xCE \<or> c = CHR 0xCF)"

fun lower_sigma :: "bool \<Rightarrow> string \<Rightarrow> string" where
  "lower_sigma after_letter [] = []"
| "lower_sigma after_letter [c] = [ascii_lower c]"
| "lower_sigma after_letter (c # d # cs) =
     (if c = CHR 0xCE \<and> d = CHR 0xA3 then
        (if after_letter \<and> \<not> letter_follows cs then [CHR 0xCF, CHR 0x82]
         else [CHR 0xCF, CHR 0x83]) @ lower_sigma True cs
      else if c = CHR 0xCF \<and> (d = CHR 0x83 \<or> d = CHR 0x82) then
        c # d # lower_sigma True cs
      else
        ascii_lower c #
        lower_sigma (if case_ignorable c then after_letter else ascii_letter c) (d # cs))"

definition sigma_host :: host where
  "sigma_host = example_host\<lparr>toLowerCase := lower_sigma False\<rparr>"

section \<open>Example data\<close>

definition alice :: user where
  "alice = \<lparr>user_id = 1, name = Some ''Alice'', email = Some ''alice@x.com'',
     created_at = Some ''2024-01-01T00:00:00Z'', credits = Some 5, banned = False,
     interview_id = Some ''i1'', interviewCount = 2, candidateCount = 1\<rparr>"

definition bob :: user where
  "bob = \<lparr>user_id = 2, name = Some ''Bob'', email = Some ''bob@x.com'',
     created_at = Some ''2024-01-02T00:00:00Z'', credits = Some 0, banned = True,
     interview_id = None, interviewCount = 0, candidateCount = 0\<rparr>"

definition dave :: user where
  "dave = \<lparr>user_id = 4, name = Some ''Dave'', email = Some ''dave@x.com'',
     created_at = Some ''2024-01-02T00:00:00Z'', credits = None, banned = False,
     interview_id = None, interviewCount = 0, candidateCount = 0\<rparr>"

definition nobody :: user where
  "nobody = \<lparr>user_id = 3, name = None, email = None,
     created_at = None, credits = None, banned = False,
     interview_id = None, interviewCount = 0, candidateCount = 0\<rparr>"

definition example_state :: page_state where
  "example_state = \<lparr>users = [alice, bob, nobody, dave], filteredUsers = [], loading = False,
     searchTerm = [], sortBy = SortCreatedAt, sortOrder = Desc, showBanned = True,
     toasts = [], console = [], requests = []\<rparr>"

text \<open>
  A user whose name is \<open>a\<close>, small sigma, \<open>a\<close>; the search text \<open>A\<close>, capital sigma; and
  the state that holds that user alone.
\<close>

definition asa :: user where
  "asa = \<lparr>user_id = 5, name = Some [CHR ''a'', CHR 0xCF, CHR 0x83, CHR ''a''],
     email = Some ''s@x.com'', created_at = Some ''2024-01-01T00:00:00Z'', credits = None,
     banned = False, interview_id = None, interviewCount = 0, candidateCount = 0\<rparr>"

definition A_Sigma :: string where
  "A_Sigma = [CHR ''A'', CHR 0xCE, CHR 0xA3]"

definition sigma_state :: page_state where
  "sigma_state = example_state\<lparr>users := [asa]\<rparr>"

text \<open>The two users of the export scenario, and one whose name holds a comma.\<close>

definition user_A :: user where
  "user_A = \<lparr>user_id = 6, name = Some ''A'', email = Some ''a@x.com'',
     created_at = Some ''2024-01-01T00:00:00Z'', credits = Some 5, banned = False,
     interview_id = None, interviewCount = 2, candidateCount = 1\<rparr>"

definition user_B :: user where
  "user_B = \<lparr>user_id = 7, name = Some ''B'', email = Some ''b@x.com'',
     created_at = Some ''2024-01-02T00:00:00Z'', credits = Some 0, banned = True,
     interview_id = None, interviewCount = 0, candidateCount = 0\<rparr>"

definition user_comma :: user where
  "user_comma = \<lparr>user_id = 8, name = Some ''Doe, J'', email = Some ''d@x.com'',
     created_at = Some ''2024-01-01T00:00:00Z'', credits = Some 12, banned = False,
     interview_id = None, interviewCount = 0, candidateCount = 0\<rparr>"

text \<open>
  A backend that lists one user and on which the count of that user's interviews and
  the deletion of interviews fail, while every other call succeeds.
\<close>

definition eve :: user_row where
  "eve = \<lparr>user_id = 9, name = Some ''Eve'', email = Some ''eve@x.com'',
     created_at = Some ''2024-01-01T00:00:00Z'', credits = Some 1, banned = False,
     interview_id = Some ''i9''\<rparr>"

definition failing_gateway :: gateway where
  "failing_gateway =
     \<lparr>list_users = \<lparr>data = Some [eve], count_resp = None, error = None\<rparr>,
      count_interviews = (\<lambda>e. \<lparr>data = None, count_resp = None,
                                error = Some (BackendError ''timeout'')\<rparr>),
      count_results = (\<lambda>i. \<lparr>data = None, count_resp = Some 3, error = None\<rparr>),
      delete_interviews = (\<lambda>e. \<lparr>data = None, count_resp = None,
                                 error = Some (BackendError ''denied'')\<rparr>),
      delete_results = (\<lambda>i. \<lparr>data = None, count_resp = None, error = None\<rparr>),
      delete_user = (\<lambda>i. \<lparr>data = None, count_resp = None, error = None\<rparr>)\<rparr>"


text \<open>
  Four users for the sort by name: \<open>b\<close>, one without a name, \<open>a\<close> and \<open>c\<close>, listed in
  that order, with an empty search text and the ascending direction.
\<close>

definition named :: "nat \<Rightarrow> string option \<Rightarrow> string \<Rightarrow> user" where
  "named i n e =
     \<lparr>user_id = i, name = n, email = Some e, created_at = Some ''2024-01-01T00:00:00Z'',
      credits = None, banned = False, interview_id = None, interviewCount = 0,
      candidateCount = 0\<rparr>"

definition names_state :: page_state where
  "names_state =
     \<lparr>users = [named 11 (Some ''b'') ''b@x.com'', named 12 None ''n@x.com'',
               named 13 (Some ''a'') ''a@x.com'', named 14 (Some ''c'') ''c@x.com''],
      filteredUsers = [], loading = False, searchTerm = [], sortBy = SortName,
      sortOrder = Asc, showBanned = True, toasts = [], console = [], requests = []\<rparr>"

section \<open>Notions of the specification\<close>

text \<open>
  A field contains the search text case-insensitively: the field is present, and the
  lower case of the search text occurs in the lower case of the field.
\<close>

definition contains_ci :: "host \<Rightarrow> string option \<Rightarrow> string \<Rightarrow> bool" where
  "contains_ci h field q =
     (\<exists>s pre post. field = Some s \<and> toLowerCase h s = pre @ toLowerCase h q @ post)"

text \<open>
  The three-way comparison of two values that may be absent: two present values in their
  natural order, an absent value before every present one or after every present one,
  as the first argument says. The specification does not say which; what follows holds
  for both.
\<close>

definition compare_optional ::
  "bool \<Rightarrow> ('a \<Rightarrow> 'a \<Rightarrow> bool) \<Rightarrow> 'a option \<Rightarrow> 'a option \<Rightarrow> int" where
  "compare_optional absent_first lt x y =
     (case x of
        None \<Rightarrow> (case y of None \<Rightarrow> 0 | Some b \<Rightarrow> if absent_first then - 1 else 1)
      | Some a \<Rightarrow>
          (case y of
             None \<Rightarrow> if absent_first then 1 else - 1
           | Some b \<Rightarrow> if lt a b then - 1 else if lt b a then 1 else 0))"

text \<open>The instant of a creation time, absent when there is none or it is no date.\<close>

definition instant :: "host \<Rightarrow> user \<Rightarrow> rat option" where
  "instant h u = (case created_at u of None \<Rightarrow> None | Some s \<Rightarrow> DateParse h s)"

text \<open>
  The comparison the specification speaks of: creation times are compared as instants,
  names and emails in the order of strings, interview counts in the order of numbers.
\<close>

definition compare :: "bool \<Rightarrow> host \<Rightarrow> sort_key \<Rightarrow> user \<Rightarrow> user \<Rightarrow> int" where
  "compare absent_first h k a b =
     (case k of
        SortCreatedAt \<Rightarrow> compare_optional absent_first (<) (instant h a) (instant h b)
      | SortName \<Rightarrow> compare_optional absent_first (StringLess h) (name a) (name b)
      | SortEmail \<Rightarrow> compare_optional absent_first (StringLess h) (email a) (email b)
      | SortInterviewCount \<Rightarrow>
          compare_optional absent_first (<) (Some (interviewCount a)) (Some (interviewCount b)))"

text \<open>
  The postcondition of the sort: every element and its successor compare as the
  direction asks, at most 0 when ascending and at least 0 when descending.
\<close>

definition sorted_as_specified ::
  "bool \<Rightarrow> host \<Rightarrow> sort_key \<Rightarrow> sort_order \<Rightarrow> user list \<Rightarrow> bool" where
  "sorted_as_specified absent_first h k ord out =
     successively
       (\<lambda>a b. if ord = Asc then compare absent_first h k a b \<le> 0
              else 0 \<le> compare absent_first h k a b)
       out"

section \<open>Properties of the filter and the sort\<close>

lemma includes_str_iff: "includes_str s t \<longleftrightarrow> (\<exists>pre post. s = pre @ t @ post)"
proof (induction s)
  case Nil
  then show ?case by auto
next
  case (Cons c s)
  have "take (length t) (c # s) = t \<longleftrightarrow> (\<exists>post. c # s = t @ post)"
    by (metis append_eq_conv_conj append_take_drop_id)
  moreover have "(\<exists>pre post. c # s = pre @ t @ post) \<longleftrightarrow>
      (\<exists>post. c # s = t @ post) \<or> (\<exists>pre post. s = pre @ t @ post)"
  proof
    assume "\<exists>pre post. c # s = pre @ t @ post"
    then obtain pre post where e: "c # s = pre @ t @ post" by blast
    show "(\<exists>post. c # s = t @ post) \<or> (\<exists>pre post. s = pre @ t @ post)"
    proof (cases pre)
      case Nil
      with e show ?thesis by auto
    next
      case (Cons a pre')
      with e have "s = pre' @ t @ post" by simp
      then show ?thesis by blast
    qed
  next
    assume "(\<exists>post. c # s = t @ post) \<or> (\<exists>pre post. s = pre @ t @ post)"
    then show "\<exists>pre post. c # s = pre @ t @ post"
    proof
      assume "\<exists>post. c # s = t @ post"
      then obtain post where "c # s = [] @ t @ post" by auto
      then show ?thesis by blast
    next
      assume "\<exists>pre post. s = pre @ t @ post"
      then obtain pre post where "c # s = (c # pre) @ t @ post" by auto
      then show ?thesis by blast
    qed
  qed
  ultimately show ?case using Cons.IH by simp
qed

lemma field_matches_iff: "field_matches h field q \<longleftrightarrow> contains_ci h field q"
  by (cases field) (auto simp: field_matches_def contains_ci_def includes_str_iff)

text \<open>The sort rearranges its input and loses or adds nothing.\<close>

lemma extend_run_append: "extend_run continues previous xs = (run, rest) \<Longrightarrow> run @ rest = xs"
proof (induction xs arbitrary: previous run rest)
  case Nil
  then show ?case by simp
next
  case (Cons x xs)
  show ?case
  proof (cases "continues x previous")
    case True
    obtain run' rest' where r: "extend_run continues x xs = (run', rest')"
      by (cases "extend_run continues x xs")
    with Cons.prems True have "run = x # run'" "rest = rest'" by simp_all
    with Cons.IH [OF r] show ?thesis by simp
  next
    case False
    with Cons.prems show ?thesis by simp
  qed
qed

lemma mset_CountAndMakeRun:
  "CountAndMakeRun c xs = (run, rest) \<Longrightarrow> mset run + mset rest = mset xs"
proof (induction c xs rule: CountAndMakeRun.induct)
  case (1 c x0 x1 xs)
  show ?case
  proof (cases "c x1 x0 < 0")
    case True
    obtain r rest' where e: "extend_run (\<lambda>current previous. c current previous < 0) x1 xs = (r, rest')"
      by (cases "extend_run (\<lambda>current previous. c current previous < 0) x1 xs")
    with "1.prems" True have "run = rev (x0 # x1 # r)" "rest = rest'" by simp_all
    with extend_run_append [OF e] show ?thesis by auto
  next
    case False
    obtain r rest' where e: "extend_run (\<lambda>current previous. 0 \<le> c current previous) x1 xs = (r, rest')"
      by (cases "extend_run (\<lambda>current previous. 0 \<le> c current previous) x1 xs")
    with "1.prems" False have "run = x0 # x1 # r" "rest = rest'" by simp_all
    with extend_run_append [OF e] show ?thesis by auto
  qed
qed auto

lemma mset_insert_pivot: "mset (insert_pivot c ys x) = add_mset x (mset ys)"
proof -
  have "mset (take n ys) + mset (drop n ys) = mset ys" for n
    by (metis append_take_drop_id mset_append)
  then show ?thesis by (simp add: insert_pivot_def Let_def)
qed

lemma mset_BinaryInsertionSort: "mset (BinaryInsertionSort c run rest) = mset run + mset rest"
  unfolding BinaryInsertionSort_def
  by (induction rest arbitrary: run) (auto simp: mset_insert_pivot)

lemma mset_js_sort: "mset (js_sort c xs) = mset xs"
proof -
  obtain run rest where r: "CountAndMakeRun c xs = (run, rest)"
    by (cases "CountAndMakeRun c xs")
  then show ?thesis
    by (simp add: js_sort_def mset_BinaryInsertionSort mset_CountAndMakeRun)
qed

lemma set_js_sort: "set (js_sort c xs) = set xs"
  using mset_js_sort [of c xs] by (metis set_mset_mset)

lemma set_filterAndSortUsers:
  "set (filteredUsers (filterAndSortUsers h st)) =
   {u \<in> set (users st). matchesSearch h (searchTerm st) u \<and> matchesBannedFilter (showBanned st) u}"
  by (simp add: filterAndSortUsers_def Let_def set_js_sort)

text \<open>
  The comparison function of the page never answers 0, so it tells no two records to be
  equal; and it puts a record without a name before every record whose name does not
  read as a number, and every such record before it.
\<close>

lemma comparator_never_zero:
  "comparator h k ord a b = 1 \<or> comparator h k ord a b = - 1"
  by (simp add: comparator_def Let_def)

lemma comparator_absent_name:
  "name a = None \<Longrightarrow> name b = Some s \<Longrightarrow> StringToNumber h s = None \<Longrightarrow>
   comparator h SortName ord a b = - 1 \<and> comparator h SortName ord b a = - 1"
  by (simp add: comparator_def Let_def sort_value_def user_field_def js_greater_def)

lemma example_sorted:
  "filteredUsers (filterAndSortUsers example_host example_state) = [dave, bob, alice]"
  by code_simp

text \<open>
  Claim C1, at an input where the code departs from it. Four users are listed in the
  order \<open>b\<close>, one without a name, \<open>a\<close>, \<open>c\<close>, and sorted by name in the ascending
  direction. The array that \<^verbatim>\<open>filterAndSortUsers\<close> publishes is \<open>a\<close>, \<open>c\<close>, the user
  without a name, \<open>b\<close>. It does not satisfy the postcondition, wherever the comparison
  of the specification puts an absent name: when absent names come first, \<open>c\<close> and its
  successor compare above 0, and when they come last, the user without a name and its
  successor \<open>b\<close> do.
\<close>

theorem sort_absent_name_unsorted:
  "filteredUsers (filterAndSortUsers example_host names_state) =
     [named 13 (Some ''a'') ''a@x.com'', named 14 (Some ''c'') ''c@x.com'',
      named 12 None ''n@x.com'', named 11 (Some ''b'') ''b@x.com''] \<and>
   0 < compare True example_host SortName
         (named 14 (Some ''c'') ''c@x.com'') (named 12 None ''n@x.com'') \<and>
   0 < compare False example_host SortName
         (named 12 None ''n@x.com'') (named 11 (Some ''b'') ''b@x.com'') \<and>
   \<not> sorted_as_specified True example_host SortName Asc
       (filteredUsers (filterAndSortUsers example_host names_state)) \<and>
   \<not> sorted_as_specified False example_host SortName Asc
       (filteredUsers (filterAndSortUsers example_host names_state))"
proof -
  have out: "filteredUsers (filterAndSortUsers example_host names_state) =
     [named 13 (Some ''a'') ''a@x.com'', named 14 (Some ''c'') ''c@x.com'',
      named 12 None ''n@x.com'', named 11 (Some ''b'') ''b@x.com'']"
    by code_simp
  have first: "0 < compare True example_host SortName
         (named 14 (Some ''c'') ''c@x.com'') (named 12 None ''n@x.com'')"
    by (simp add: compare_def compare_optional_def named_def)
  have last: "0 < compare False example_host SortName
         (named 12 None ''n@x.com'') (named 11 (Some ''b'') ''b@x.com'')"
    by (simp add: compare_def compare_optional_def named_def)
  from first have "\<not> sorted_as_specified True example_host SortName Asc
       (filteredUsers (filterAndSortUsers example_host names_state))"
    unfolding out by (simp add: sorted_as_specified_def)
  moreover from last have "\<not> sorted_as_specified False example_host SortName Asc
       (filteredUsers (filterAndSortUsers example_host names_state))"
    unfolding out by (simp add: sorted_as_specified_def)
  ultimately show ?thesis using out first last by simp
qed

text \<open>
  Claim C3. For every enriched user and every query state, the user is among the visible
  ones exactly when it is one of the users, its name or its email contains the search
  text case-insensitively (an absent name or email does not match and raises nothing),
  and the include-banned flag is set or the user is not banned.
\<close>

theorem visible_iff:
  "u \<in> set (filteredUsers (filterAndSortUsers h st)) \<longleftrightarrow>
     u \<in> set (users st) \<and>
     (contains_ci h (name u) (searchTerm st) \<or> contains_ci h (email u) (searchTerm st)) \<and>
     (showBanned st \<or> \<not> banned u)"
  by (simp add: set_filterAndSortUsers matchesSearch_def matchesBannedFilter_def field_matches_iff)

theorem visible_iff_witness:
  "bob \<in> set (filteredUsers (filterAndSortUsers example_host example_state)) \<and>
   nobody \<notin> set (filteredUsers (filterAndSortUsers example_host example_state)) \<and>
   nobody \<in> set (users example_state) \<and>
   (contains_ci example_host (name bob) [] \<or> contains_ci example_host (email bob) []) \<and>
   \<not> contains_ci example_host (name nobody) [] \<and>
   \<not> contains_ci example_host (email nobody) []"
  using visible_iff [of bob example_host example_state]
    visible_iff [of nobody example_host example_state]
  by (simp add: example_sorted) (simp add: example_state_def alice_def bob_def nobody_def dave_def)

section \<open>Properties of the status label\<close>

text \<open>
  Claim C8. For every user the status label is decided in a fixed order: \<open>Banned\<close> when
  the banned flag is set; otherwise \<open>Active\<close> when the interview count is above 0;
  otherwise \<open>Registered\<close> when there is a creation timestamp; otherwise \<open>Inactive\<close>. So
  a banned user with 5 interviews is \<open>Banned\<close>.
\<close>

theorem status_priority:
  "(banned u \<longrightarrow> getStatusText u = ''Banned'') \<and>
   (\<not> banned u \<and> 0 < interviewCount u \<longrightarrow> getStatusText u = ''Active'') \<and>
   (\<not> banned u \<and> interviewCount u = 0 \<and> created_at u = Some s \<and> s \<noteq> [] \<longrightarrow>
      getStatusText u = ''Registered'') \<and>
   (\<not> banned u \<and> interviewCount u = 0 \<and> (created_at u = None \<or> created_at u = Some []) \<longrightarrow>
      getStatusText u = ''Inactive'') \<and>
   getStatusText (u\<lparr>banned := True, interviewCount := 5\<rparr>) = ''Banned''"
  by (auto simp: getStatusText_def truthy_string_def split: option.splits)

theorem status_priority_witness:
  "banned bob \<and> getStatusText bob = ''Banned'' \<and>
   \<not> banned alice \<and> 0 < interviewCount alice \<and> getStatusText alice = ''Active'' \<and>
   \<not> banned dave \<and> interviewCount dave = 0 \<and> created_at dave = Some ''2024-01-02T00:00:00Z'' \<and>
   getStatusText dave = ''Registered'' \<and>
   \<not> banned nobody \<and> interviewCount nobody = 0 \<and> created_at nobody = None \<and>
   getStatusText nobody = ''Inactive'' \<and>
   getStatusText (alice\<lparr>banned := True, interviewCount := 5\<rparr>) = ''Banned''"
  using status_priority [of bob] status_priority [of alice]
    status_priority [of dave "''2024-01-02T00:00:00Z''"] status_priority [of nobody]
  by (simp add: alice_def bob_def dave_def nobody_def)

section \<open>Monotonicity of the filter\<close>

lemma includes_str_trans:
  "includes_str s t \<Longrightarrow> includes_str t r \<Longrightarrow> includes_str s r"
proof -
  assume "includes_str s t" and "includes_str t r"
  then obtain p1 q1 p2 q2 where "s = p1 @ t @ q1" and "t = p2 @ r @ q2"
    unfolding includes_str_iff by blast
  then have "s = (p1 @ p2) @ r @ (q2 @ q1)" by simp
  then show ?thesis unfolding includes_str_iff by blast
qed

lemma field_matches_narrow:
  "includes_str (toLowerCase h q') (toLowerCase h q) \<Longrightarrow>
   field_matches h field q' \<Longrightarrow> field_matches h field q"
  by (cases field) (auto simp: field_matches_def intro: includes_str_trans)

text \<open>
  Claim C9, the part that fails as stated. With the lower case of the host, which maps
  a capital sigma at the end of a word to the final small sigma, appending \<open>A\<close> to the
  search text \<open>A\<close>, capital sigma, makes a user visible that was not.
\<close>

theorem filter_monotonic_counterexample:
  "\<not> set (filteredUsers (filterAndSortUsers sigma_host (sigma_state\<lparr>searchTerm := A_Sigma @ ''A''\<rparr>)))
     \<subseteq> set (filteredUsers (filterAndSortUsers sigma_host (sigma_state\<lparr>searchTerm := A_Sigma\<rparr>)))"
proof -
  have longer: "matchesSearch sigma_host (A_Sigma @ ''A'') asa"
    by (simp add: asa_def A_Sigma_def sigma_host_def example_host_def matchesSearch_def
        field_matches_def ascii_lower_def ascii_letter_def case_ignorable_def)
  have shorter: "\<not> matchesSearch sigma_host A_Sigma asa"
    by (simp add: asa_def A_Sigma_def sigma_host_def example_host_def matchesSearch_def
        field_matches_def ascii_lower_def ascii_letter_def case_ignorable_def)
  have shown: "matchesBannedFilter True asa"
    by (simp add: matchesBannedFilter_def)
  have state: "users sigma_state = [asa]" "showBanned sigma_state = True"
    by (simp_all add: sigma_state_def example_state_def)
  have "asa \<in> set (filteredUsers (filterAndSortUsers sigma_host (sigma_state\<lparr>searchTerm := A_Sigma @ ''A''\<rparr>)))"
    using longer shown state by (simp add: set_filterAndSortUsers)
  moreover have "asa \<notin> set (filteredUsers (filterAndSortUsers sigma_host (sigma_state\<lparr>searchTerm := A_Sigma\<rparr>)))"
    using shorter by (simp add: set_filterAndSortUsers)
  ultimately show ?thesis by blast
qed

text \<open>
  Claim C9, amended. For every collection and every query state, setting the
  include-banned flag never removes a user from the visible set; and appending characters
  to the search text never adds one, provided the lower case of the shorter text still
  occurs in the lower case of the longer one, which is so whenever the host lowers a text
  character by character.
\<close>

theorem filter_monotonic:
  "set (filteredUsers (filterAndSortUsers h (st\<lparr>showBanned := False\<rparr>)))
     \<subseteq> set (filteredUsers (filterAndSortUsers h (st\<lparr>showBanned := True\<rparr>))) \<and>
   (includes_str (toLowerCase h (q @ ext)) (toLowerCase h q) \<longrightarrow>
      set (filteredUsers (filterAndSortUsers h (st\<lparr>searchTerm := q @ ext\<rparr>)))
        \<subseteq> set (filteredUsers (filterAndSortUsers h (st\<lparr>searchTerm := q\<rparr>)))) \<and>
   (toLowerCase h = map f \<longrightarrow>
      set (filteredUsers (filterAndSortUsers h (st\<lparr>searchTerm := q @ ext\<rparr>)))
        \<subseteq> set (filteredUsers (filterAndSortUsers h (st\<lparr>searchTerm := q\<rparr>))))"
proof (intro conjI impI)
  show "set (filteredUsers (filterAndSortUsers h (st\<lparr>showBanned := False\<rparr>)))
     \<subseteq> set (filteredUsers (filterAndSortUsers h (st\<lparr>showBanned := True\<rparr>)))"
    by (auto simp: set_filterAndSortUsers matchesBannedFilter_def)
next
  assume "includes_str (toLowerCase h (q @ ext)) (toLowerCase h q)"
  then show "set (filteredUsers (filterAndSortUsers h (st\<lparr>searchTerm := q @ ext\<rparr>)))
        \<subseteq> set (filteredUsers (filterAndSortUsers h (st\<lparr>searchTerm := q\<rparr>)))"
    by (auto simp: set_filterAndSortUsers matchesSearch_def dest: field_matches_narrow)
next
  assume "toLowerCase h = map f"
  then have "toLowerCase h (q @ ext) = [] @ toLowerCase h q @ toLowerCase h ext" by simp
  then have "includes_str (toLowerCase h (q @ ext)) (toLowerCase h q)"
    unfolding includes_str_iff by blast
  then show "set (filteredUsers (filterAndSortUsers h (st\<lparr>searchTerm := q @ ext\<rparr>)))
        \<subseteq> set (filteredUsers (filterAndSortUsers h (st\<lparr>searchTerm := q\<rparr>)))"
    by (auto simp: set_filterAndSortUsers matchesSearch_def dest: field_matches_narrow)
qed

theorem filter_monotonic_witness:
  "includes_str (toLowerCase example_host (''AL'' @ ''ice'')) (toLowerCase example_host ''AL'') \<and>
   toLowerCase example_host = map ascii_lower \<and>
   set (filteredUsers (filterAndSortUsers example_host (example_state\<lparr>searchTerm := ''AL'' @ ''ice''\<rparr>)))
     \<subseteq> set (filteredUsers (filterAndSortUsers example_host (example_state\<lparr>searchTerm := ''AL''\<rparr>))) \<and>
   alice \<in> set (filteredUsers (filterAndSortUsers example_host (example_state\<lparr>searchTerm := ''AL'' @ ''ice''\<rparr>))) \<and>
   set (filteredUsers (filterAndSortUsers example_host (example_state\<lparr>showBanned := False\<rparr>)))
     \<subseteq> set (filteredUsers (filterAndSortUsers example_host (example_state\<lparr>showBanned := True\<rparr>)))"
proof -
  have l: "toLowerCase example_host = map ascii_lower"
    by (simp add: example_host_def)
  have i: "includes_str (toLowerCase example_host (''AL'' @ ''ice'')) (toLowerCase example_host ''AL'')"
    by (simp add: example_host_def ascii_lower_def)
  have a: "alice \<in> set (filteredUsers (filterAndSortUsers example_host (example_state\<lparr>searchTerm := ''AL'' @ ''ice''\<rparr>)))"
    by (simp add: set_filterAndSortUsers example_state_def alice_def example_host_def
        matchesSearch_def field_matches_def matchesBannedFilter_def ascii_lower_def)
  from filter_monotonic [of example_host example_state "''AL''" "''ice''" ascii_lower] l i a
  show ?thesis by blast
qed

section \<open>Properties of the export\<close>

lemma join_Cons: "join sep (x # xs) = x @ concat (map (\<lambda>y. sep @ y) xs)"
  by (induction xs arbitrary: x) auto

lemma show_nat_digit: "n < 10 \<Longrightarrow> show_nat n = [''0123456789'' ! n]"
  by (simp add: show_nat.simps)

lemma show_int_0: "show_int 0 = ''0''"
  by (simp add: show_int_def show_nat_digit)

lemma join_csvHeader:
  "join '','' csvHeader =
     ''Name,Email,Created Date,Interviews Created,Candidates Interviewed,Credits,Status''"
  by (simp add: csvHeader_def)

text \<open>
  The text is the header line and then, for each visible record in order, a line feed
  and the seven fields of the record with commas between them.
\<close>

lemma exportUsersToCSV_lines:
  "exportUsersToCSV h st =
     ''Name,Email,Created Date,Interviews Created,Candidates Interviewed,Credits,Status'' @
     concat (map (\<lambda>u. CHR 0x0A # join '','' (csvRow h u)) (filteredUsers st))"
  by (simp add: exportUsersToCSV_def join_Cons join_csvHeader comp_def)

lemma join_csvRow:
  "join '','' (csvRow h u) =
     or_NA (name u) @ '','' @ or_NA (email u) @ '','' @
     momentFormat h (created_at u) ''YYYY-MM-DD HH:mm'' @ '','' @
     show_nat (interviewCount u) @ '','' @ show_nat (candidateCount u) @ '','' @
     show_int (or_zero (credits u)) @ '','' @ getStatusText u"
  by (simp add: csvRow_def)

text \<open>
  Claim C7. The export is the fixed header row and one row per visible record, the fields
  joined by commas and the rows by line feeds. A name and an email that are present go
  into the row as they are, whatever characters they hold, commas and line feeds
  included. For the two
  visible users \<open>A\<close> (2 interviews, 1 candidate, 5 credits, not banned) and \<open>B\<close> (no
  interviews, no candidates, 0 credits, banned) the two data rows are
  \<^verbatim>\<open>A,a@x.com,<date>,2,1,5,Active\<close> and \<^verbatim>\<open>B,b@x.com,<date>,0,0,0,Banned\<close>, where
  the date is the creation time as the date library formats it.
\<close>

theorem export_rows:
  "exportUsersToCSV h st =
     ''Name,Email,Created Date,Interviews Created,Candidates Interviewed,Credits,Status'' @
     concat (map (\<lambda>u. [CHR 0x0A] @ or_NA (name u) @ '','' @ or_NA (email u) @ '','' @
                    momentFormat h (created_at u) ''YYYY-MM-DD HH:mm'' @ '','' @
                    show_nat (interviewCount u) @ '','' @ show_nat (candidateCount u) @ '','' @
                    show_int (or_zero (credits u)) @ '','' @ getStatusText u)
       (filteredUsers st)) \<and>
   (name u = Some n \<and> n \<noteq> [] \<and> email u = Some e \<and> e \<noteq> [] \<and> filteredUsers st = [u] \<longrightarrow>
      exportUsersToCSV h st =
        ''Name,Email,Created Date,Interviews Created,Candidates Interviewed,Credits,Status'' @
        [CHR 0x0A] @ n @ '','' @ e @ '','' @
        momentFormat h (created_at u) ''YYYY-MM-DD HH:mm'' @ '','' @
        show_nat (interviewCount u) @ '','' @ show_nat (candidateCount u) @ '','' @
        show_int (or_zero (credits u)) @ '','' @ getStatusText u) \<and>
   (name a = Some ''A'' \<and> email a = Some ''a@x.com'' \<and> interviewCount a = 2 \<and>
    candidateCount a = 1 \<and> credits a = Some 5 \<and> \<not> banned a \<and>
    name b = Some ''B'' \<and> email b = Some ''b@x.com'' \<and> interviewCount b = 0 \<and>
    candidateCount b = 0 \<and> credits b = Some 0 \<and> banned b \<and>
    filteredUsers st = [a, b] \<longrightarrow>
      exportUsersToCSV h st =
        ''Name,Email,Created Date,Interviews Created,Candidates Interviewed,Credits,Status'' @
        [CHR 0x0A] @ ''A,a@x.com,'' @ momentFormat h (created_at a) ''YYYY-MM-DD HH:mm'' @
        '',2,1,5,Active'' @
        [CHR 0x0A] @ ''B,b@x.com,'' @ momentFormat h (created_at b) ''YYYY-MM-DD HH:mm'' @
        '',0,0,0,Banned'')"
proof (intro conjI impI)
  show "exportUsersToCSV h st =
     ''Name,Email,Created Date,Interviews Created,Candidates Interviewed,Credits,Status'' @
     concat (map (\<lambda>u. [CHR 0x0A] @ or_NA (name u) @ '','' @ or_NA (email u) @ '','' @
                    momentFormat h (created_at u) ''YYYY-MM-DD HH:mm'' @ '','' @
                    show_nat (interviewCount u) @ '','' @ show_nat (candidateCount u) @ '','' @
                    show_int (or_zero (credits u)) @ '','' @ getStatusText u)
       (filteredUsers st))"
    by (simp add: exportUsersToCSV_lines join_csvRow)
next
  assume "name u = Some n \<and> n \<noteq> [] \<and> email u = Some e \<and> e \<noteq> [] \<and> filteredUsers st = [u]"
  then show "exportUsersToCSV h st =
        ''Name,Email,Created Date,Interviews Created,Candidates Interviewed,Credits,Status'' @
        [CHR 0x0A] @ n @ '','' @ e @ '','' @
        momentFormat h (created_at u) ''YYYY-MM-DD HH:mm'' @ '','' @
        show_nat (interviewCount u) @ '','' @ show_nat (candidateCount u) @ '','' @
        show_int (or_zero (credits u)) @ '','' @ getStatusText u"
    by (simp add: exportUsersToCSV_lines join_csvRow or_NA_def)
next
  assume ab: "name a = Some ''A'' \<and> email a = Some ''a@x.com'' \<and> interviewCount a = 2 \<and>
    candidateCount a = 1 \<and> credits a = Some 5 \<and> \<not> banned a \<and>
    name b = Some ''B'' \<and> email b = Some ''b@x.com'' \<and> interviewCount b = 0 \<and>
    candidateCount b = 0 \<and> credits b = Some 0 \<and> banned b \<and>
    filteredUsers st = [a, b]"
  have ra: "join '','' (csvRow h a) =
      ''A,a@x.com,'' @ momentFormat h (created_at a) ''YYYY-MM-DD HH:mm'' @ '',2,1,5,Active''"
    using ab by (simp add: join_csvRow or_NA_def or_zero_def show_int_def show_nat_digit
        getStatusText_def)
  have rb: "join '','' (csvRow h b) =
      ''B,b@x.com,'' @ momentFormat h (created_at b) ''YYYY-MM-DD HH:mm'' @ '',0,0,0,Banned''"
    using ab by (simp add: join_csvRow or_NA_def or_zero_def show_int_def show_nat_digit
        getStatusText_def)
  from ab have "filteredUsers st = [a, b]" by simp
  then show "exportUsersToCSV h st =
        ''Name,Email,Created Date,Interviews Created,Candidates Interviewed,Credits,Status'' @
        [CHR 0x0A] @ ''A,a@x.com,'' @ momentFormat h (created_at a) ''YYYY-MM-DD HH:mm'' @
        '',2,1,5,Active'' @
        [CHR 0x0A] @ ''B,b@x.com,'' @ momentFormat h (created_at b) ''YYYY-MM-DD HH:mm'' @
        '',0,0,0,Banned''"
    by (simp add: exportUsersToCSV_lines ra rb)
qed

theorem export_rows_witness:
  "exportUsersToCSV example_host (example_state\<lparr>filteredUsers := [user_comma]\<rparr>) =
     ''Name,Email,Created Date,Interviews Created,Candidates Interviewed,Credits,Status'' @
     [CHR 0x0A] @ ''Doe, J,d@x.com,2024-01-01 00:00,0,0,12,Registered'' \<and>
   exportUsersToCSV example_host (example_state\<lparr>filteredUsers := [user_A, user_B]\<rparr>) =
     ''Name,Email,Created Date,Interviews Created,Candidates Interviewed,Credits,Status'' @
     [CHR 0x0A] @ ''A,a@x.com,2024-01-01 00:00,2,1,5,Active'' @
     [CHR 0x0A] @ ''B,b@x.com,2024-01-02 00:00,0,0,0,Banned''"
proof -
  have c: "name user_comma = Some ''Doe, J'' \<and> ''Doe, J'' \<noteq> [] \<and>
      email user_comma = Some ''d@x.com'' \<and> ''d@x.com'' \<noteq> [] \<and>
      filteredUsers (example_state\<lparr>filteredUsers := [user_comma]\<rparr>) = [user_comma]"
    by (simp add: user_comma_def)
  have ab: "name user_A = Some ''A'' \<and> email user_A = Some ''a@x.com'' \<and>
      interviewCount user_A = 2 \<and> candidateCount user_A = 1 \<and> credits user_A = Some 5 \<and>
      \<not> banned user_A \<and>
      name user_B = Some ''B'' \<and> email user_B = Some ''b@x.com'' \<and>
      interviewCount user_B = 0 \<and> candidateCount user_B = 0 \<and> credits user_B = Some 0 \<and>
      banned user_B \<and>
      filteredUsers (example_state\<lparr>filteredUsers := [user_A, user_B]\<rparr>) = [user_A, user_B]"
    by (simp add: user_A_def user_B_def)
  have row: "show_nat (interviewCount user_comma) = ''0''"
      "show_nat (candidateCount user_comma) = ''0''"
      "show_int (or_zero (credits user_comma)) = ''12''"
      "getStatusText user_comma = ''Registered''"
    by (simp_all add: user_comma_def show_nat.simps show_int_def or_zero_def getStatusText_def
        truthy_string_def)
  have dates: "momentFormat example_host (created_at user_comma) ''YYYY-MM-DD HH:mm'' = ''2024-01-01 00:00''"
      "momentFormat example_host (created_at user_A) ''YYYY-MM-DD HH:mm'' = ''2024-01-01 00:00''"
      "momentFormat example_host (created_at user_B) ''YYYY-MM-DD HH:mm'' = ''2024-01-02 00:00''"
    by (simp_all add: example_host_def user_comma_def user_A_def user_B_def)
  from export_rows [where h = example_host
      and st = "example_state\<lparr>filteredUsers := [user_comma]\<rparr>"
      and u = user_comma and n = "''Doe, J''" and e = "''d@x.com''",
      THEN conjunct2, THEN conjunct1] c
  have first: "exportUsersToCSV example_host (example_state\<lparr>filteredUsers := [user_comma]\<rparr>) =
     ''Name,Email,Created Date,Interviews Created,Candidates Interviewed,Credits,Status'' @
     [CHR 0x0A] @ ''Doe, J,d@x.com,2024-01-01 00:00,0,0,12,Registered''"
    by (simp add: row dates)
  from export_rows [where h = example_host
      and st = "example_state\<lparr>filteredUsers := [user_A, user_B]\<rparr>"
      and a = user_A and b = user_B, THEN conjunct2, THEN conjunct2] ab
  have second: "exportUsersToCSV example_host (example_state\<lparr>filteredUsers := [user_A, user_B]\<rparr>) =
     ''Name,Email,Created Date,Interviews Created,Candidates Interviewed,Credits,Status'' @
     [CHR 0x0A] @ ''A,a@x.com,2024-01-01 00:00,2,1,5,Active'' @
     [CHR 0x0A] @ ''B,b@x.com,2024-01-02 00:00,0,0,0,Banned''"
    by (simp add: dates)
  from first second show ?thesis by blast
qed

text \<open>
  Claim C10. In the exported text, the row of a visible record stands after the rows of
  the records before it, and in that row an absent name and an absent email are each
  written as \<open>N/A\<close> and an absent credit balance as \<open>0\<close>; none of the three is left
  empty.
\<close>

theorem export_absent_fields:
  "(filteredUsers st = before @ u # after \<longrightarrow>
      exportUsersToCSV h st =
        exportUsersToCSV h (st\<lparr>filteredUsers := before\<rparr>) @
        CHR 0x0A # join '','' (csvRow h u) @
        concat (map (\<lambda>v. CHR 0x0A # join '','' (csvRow h v)) after)) \<and>
   (name u = None \<longrightarrow> csvRow h u ! 0 = ''N/A'') \<and>
   (email u = None \<longrightarrow> csvRow h u ! 1 = ''N/A'') \<and>
   (credits u = None \<longrightarrow> csvRow h u ! 5 = ''0'') \<and>
   (name u = None \<and> email u = None \<and> credits u = None \<longrightarrow>
      join '','' (csvRow h u) =
        ''N/A,N/A,'' @ momentFormat h (created_at u) ''YYYY-MM-DD HH:mm'' @ '','' @
        show_nat (interviewCount u) @ '','' @ show_nat (candidateCount u) @ '',0,'' @
        getStatusText u)"
proof (intro conjI impI)
  assume "filteredUsers st = before @ u # after"
  then show "exportUsersToCSV h st =
        exportUsersToCSV h (st\<lparr>filteredUsers := before\<rparr>) @
        CHR 0x0A # join '','' (csvRow h u) @
        concat (map (\<lambda>v. CHR 0x0A # join '','' (csvRow h v)) after)"
    by (simp add: exportUsersToCSV_lines)
next
  assume "name u = None"
  then show "csvRow h u ! 0 = ''N/A''" by (simp add: csvRow_def or_NA_def)
next
  assume "email u = None"
  then show "csvRow h u ! 1 = ''N/A''" by (simp add: csvRow_def or_NA_def)
next
  assume "credits u = None"
  then show "csvRow h u ! 5 = ''0''" by (simp add: csvRow_def or_zero_def show_int_0)
next
  assume "name u = None \<and> email u = None \<and> credits u = None"
  then show "join '','' (csvRow h u) =
        ''N/A,N/A,'' @ momentFormat h (created_at u) ''YYYY-MM-DD HH:mm'' @ '','' @
        show_nat (interviewCount u) @ '','' @ show_nat (candidateCount u) @ '',0,'' @
        getStatusText u"
    by (simp add: join_csvRow or_NA_def or_zero_def show_int_0)
qed

theorem export_absent_fields_witness:
  "name nobody = None \<and> email nobody = None \<and> credits nobody = None \<and>
   filteredUsers (example_state\<lparr>filteredUsers := [alice, nobody]\<rparr>) = [alice] @ nobody # [] \<and>
   exportUsersToCSV example_host (example_state\<lparr>filteredUsers := [alice, nobody]\<rparr>) =
     exportUsersToCSV example_host (example_state\<lparr>filteredUsers := [alice]\<rparr>) @
     CHR 0x0A # ''N/A,N/A,Invalid date,0,0,0,Inactive''"
proof -
  have n: "name nobody = None \<and> email nobody = None \<and> credits nobody = None"
    by (simp add: nobody_def)
  have f: "filteredUsers (example_state\<lparr>filteredUsers := [alice, nobody]\<rparr>) = [alice] @ nobody # []"
    by simp
  have v: "momentFormat example_host (created_at nobody) ''YYYY-MM-DD HH:mm'' = ''Invalid date''"
      "show_nat (interviewCount nobody) = ''0''" "show_nat (candidateCount nobody) = ''0''"
      "getStatusText nobody = ''Inactive''"
    by (simp_all add: nobody_def example_host_def show_nat.simps getStatusText_def
        truthy_string_def)
  from export_absent_fields
    [of "example_state\<lparr>filteredUsers := [alice, nobody]\<rparr>" "[alice]" nobody "[]" example_host]
    n f
  show ?thesis by (simp add: v)
qed

section \<open>Properties of the aggregation\<close>

text \<open>
  When the listing fails, the users shown stay as they were, one notification is added
  and the loading flag is cleared.
\<close>

lemma fetchUsers_listing_failed:
  "error (list_users gw) = Some e \<Longrightarrow>
   users (fetchUsers gw st) = users st \<and>
   toasts (fetchUsers gw st) = toasts st @ [ToastError ''Failed to fetch users''] \<and>
   \<not> loading (fetchUsers gw st)"
  by (simp add: fetchUsers_def fetch_failed_def)

text \<open>
  When the listing succeeds, the result is published whatever the lookups answered: an
  error in a lookup's response is never read.
\<close>

lemma fetchUsers_listing_succeeded:
  "error (list_users gw) = None \<Longrightarrow> data (list_users gw) = Some rows \<Longrightarrow>
   users (fetchUsers gw st) = map (usersWithStats gw) rows \<and>
   toasts (fetchUsers gw st) = toasts st \<and>
   console (fetchUsers gw st) = console st"
  by (simp add: fetchUsers_def)

lemma fetchUsers_toasts:
  "toasts (fetchUsers gw st) = toasts st \<or>
   toasts (fetchUsers gw st) = toasts st @ [ToastError ''Failed to fetch users'']"
  by (simp add: fetchUsers_def fetch_failed_def Let_def split: option.splits)

lemma fetchUsers_console: "\<exists>more. console (fetchUsers gw st) = console st @ more"
  by (simp add: fetchUsers_def fetch_failed_def Let_def split: option.splits)

lemma fetchUsers_requests: "\<exists>more. requests (fetchUsers gw st) = requests st @ ListUsers # more"
  by (simp add: fetchUsers_def fetch_failed_def Let_def split: option.splits)

text \<open>
  Claim C2, at an input where the code departs from it. The listing returns one user and
  the count of that user's interviews fails. The aggregation does not fail: it shows no
  notification and logs nothing, and it replaces the users shown by the new list, in
  which the failed count stands as 0 beside the count that succeeded.
\<close>

theorem fetchUsers_lookup_error_ignored:
  "failed (count_interviews failing_gateway (email eve)) \<and>
   toasts (fetchUsers failing_gateway st) = toasts st \<and>
   console (fetchUsers failing_gateway st) = console st \<and>
   users (fetchUsers failing_gateway st) =
     [\<lparr>user_id = 9, name = Some ''Eve'', email = Some ''eve@x.com'',
       created_at = Some ''2024-01-01T00:00:00Z'', credits = Some 1, banned = False,
       interview_id = Some ''i9'', interviewCount = 0, candidateCount = 3\<rparr>]"
  by (simp add: fetchUsers_def failing_gateway_def failed_def usersWithStats_def eve_def
      count_or_zero_def)

section \<open>Properties of the cascading delete\<close>

lemma deleteUser_root_succeeded:
  "error (delete_user gw userId) = None \<Longrightarrow>
   deleteUser gw gw' userId st =
     fetchUsers gw'
       (log_error ''Error deleting interview results:''
          (delete_results gw (find_field st userId interview_id))
          (log_error ''Error deleting interviews:''
             (delete_interviews gw (find_field st userId email)) st)
        \<lparr>requests := requests st @
           [DeleteInterviews (find_field st userId email),
            DeleteResults (find_field st userId interview_id), DeleteUser userId],
         toasts := toasts st @ [ToastSuccess ''User deleted successfully'']\<rparr>)"
  by (simp add: deleteUser_def Let_def log_error_def send_def split: option.splits)

lemma deleteUser_requests:
  "\<exists>rest. requests (deleteUser gw gw' userId st) =
     requests st @
     [DeleteInterviews (find_field st userId email),
      DeleteResults (find_field st userId interview_id), DeleteUser userId] @ rest"
proof (cases "error (delete_user gw userId)")
  case None
  let ?st = "log_error ''Error deleting interview results:''
          (delete_results gw (find_field st userId interview_id))
          (log_error ''Error deleting interviews:''
             (delete_interviews gw (find_field st userId email)) st)
        \<lparr>requests := requests st @
           [DeleteInterviews (find_field st userId email),
            DeleteResults (find_field st userId interview_id), DeleteUser userId],
         toasts := toasts st @ [ToastSuccess ''User deleted successfully'']\<rparr>"
  obtain more where "requests (fetchUsers gw' ?st) = requests ?st @ ListUsers # more"
    using fetchUsers_requests by blast
  with None show ?thesis by (simp add: deleteUser_root_succeeded)
next
  case (Some e)
  then show ?thesis
    by (simp add: deleteUser_def Let_def log_error_def send_def split: option.splits)
qed

lemma deleteUser_console:
  "\<exists>rest. console (deleteUser gw gw' userId st) =
     console st @
     (case error (delete_interviews gw (find_field st userId email)) of
        None \<Rightarrow> [] | Some e \<Rightarrow> [(''Error deleting interviews:'', e)]) @
     (case error (delete_results gw (find_field st userId interview_id)) of
        None \<Rightarrow> [] | Some e \<Rightarrow> [(''Error deleting interview results:'', e)]) @ rest"
proof (cases "error (delete_user gw userId)")
  case None
  let ?st = "log_error ''Error deleting interview results:''
          (delete_results gw (find_field st userId interview_id))
          (log_error ''Error deleting interviews:''
             (delete_interviews gw (find_field st userId email)) st)
        \<lparr>requests := requests st @
           [DeleteInterviews (find_field st userId email),
            DeleteResults (find_field st userId interview_id), DeleteUser userId],
         toasts := toasts st @ [ToastSuccess ''User deleted successfully'']\<rparr>"
  obtain more where "console (fetchUsers gw' ?st) = console ?st @ more"
    using fetchUsers_console by blast
  with None show ?thesis
    by (simp add: deleteUser_root_succeeded log_error_def split: option.splits)
next
  case (Some e)
  then show ?thesis
    by (simp add: deleteUser_def Let_def log_error_def send_def split: option.splits)
qed

lemma deleteUser_toasts:
  "error (delete_user gw userId) = None \<Longrightarrow>
   \<exists>more. toasts (deleteUser gw gw' userId st) =
       toasts st @ ToastSuccess ''User deleted successfully'' # more \<and>
     ToastError ''Failed to delete user'' \<notin> set more"
proof -
  assume root: "error (delete_user gw userId) = None"
  let ?st = "log_error ''Error deleting interview results:''
          (delete_results gw (find_field st userId interview_id))
          (log_error ''Error deleting interviews:''
             (delete_interviews gw (find_field st userId email)) st)
        \<lparr>requests := requests st @
           [DeleteInterviews (find_field st userId email),
            DeleteResults (find_field st userId interview_id), DeleteUser userId],
         toasts := toasts st @ [ToastSuccess ''User deleted successfully'']\<rparr>"
  have t: "toasts ?st = toasts st @ [ToastSuccess ''User deleted successfully'']" by simp
  from fetchUsers_toasts [of gw' ?st] show ?thesis
  proof
    assume "toasts (fetchUsers gw' ?st) = toasts ?st"
    with root t have "toasts (deleteUser gw gw' userId st) =
        toasts st @ ToastSuccess ''User deleted successfully'' # []"
      by (simp add: deleteUser_root_succeeded)
    then show ?thesis by (intro exI [of _ "[]"]) simp
  next
    assume "toasts (fetchUsers gw' ?st) = toasts ?st @ [ToastError ''Failed to fetch users'']"
    with root t have "toasts (deleteUser gw gw' userId st) =
        toasts st @ ToastSuccess ''User deleted successfully'' # [ToastError ''Failed to fetch users'']"
      by (simp add: deleteUser_root_succeeded)
    then show ?thesis by (intro exI [of _ "[ToastError ''Failed to fetch users'']"]) simp
  qed
qed

text \<open>
  Claim C6. In the cascading delete the three deletions are requested in order whatever
  the first two answer, so the deletion of the user record is always attempted. A failure
  of the deletion of the interviews or of the deletion of the results is written to the
  console and nothing more. When the deletion of the user record succeeds, the success
  notification is shown and no failure of the delete is, also when a dependent deletion
  failed.
\<close>

theorem cascading_delete_best_effort:
  "(\<exists>rest. requests (deleteUser gw gw' userId st) =
      requests st @
      [DeleteInterviews (find_field st userId email),
       DeleteResults (find_field st userId interview_id), DeleteUser userId] @ rest) \<and>
   (error (delete_interviews gw (find_field st userId email)) = Some e1 \<longrightarrow>
      (''Error deleting interviews:'', e1) \<in> set (console (deleteUser gw gw' userId st))) \<and>
   (error (delete_results gw (find_field st userId interview_id)) = Some e2 \<longrightarrow>
      (''Error deleting interview results:'', e2) \<in> set (console (deleteUser gw gw' userId st))) \<and>
   (error (delete_user gw userId) = None \<longrightarrow>
      (\<exists>more. toasts (deleteUser gw gw' userId st) =
          toasts st @ ToastSuccess ''User deleted successfully'' # more \<and>
        ToastError ''Failed to delete user'' \<notin> set more))"
proof (intro conjI impI)
  show "\<exists>rest. requests (deleteUser gw gw' userId st) =
      requests st @
      [DeleteInterviews (find_field st userId email),
       DeleteResults (find_field st userId interview_id), DeleteUser userId] @ rest"
    by (rule deleteUser_requests)
next
  assume "error (delete_interviews gw (find_field st userId email)) = Some e1"
  with deleteUser_console [of gw gw' userId st]
  show "(''Error deleting interviews:'', e1) \<in> set (console (deleteUser gw gw' userId st))"
    by auto
next
  assume "error (delete_results gw (find_field st userId interview_id)) = Some e2"
  with deleteUser_console [of gw gw' userId st]
  show "(''Error deleting interview results:'', e2) \<in> set (console (deleteUser gw gw' userId st))"
    by auto
next
  assume "error (delete_user gw userId) = None"
  then show "\<exists>more. toasts (deleteUser gw gw' userId st) =
          toasts st @ ToastSuccess ''User deleted successfully'' # more \<and>
        ToastError ''Failed to delete user'' \<notin> set more"
    by (rule deleteUser_toasts)
qed

theorem cascading_delete_best_effort_witness:
  "error (delete_interviews failing_gateway (find_field example_state 1 email)) =
     Some (BackendError ''denied'') \<and>
   error (delete_user failing_gateway 1) = None \<and>
   (''Error deleting interviews:'', BackendError ''denied'')
     \<in> set (console (deleteUser failing_gateway failing_gateway 1 example_state)) \<and>
   toasts (deleteUser failing_gateway failing_gateway 1 example_state) =
     [ToastSuccess ''User deleted successfully''] \<and>
   take 3 (requests (deleteUser failing_gateway failing_gateway 1 example_state)) =
     [DeleteInterviews (Some ''alice@x.com''), DeleteResults (Some ''i1''), DeleteUser 1]"
proof -
  have f: "find_field example_state 1 email = Some ''alice@x.com''"
      "find_field example_state 1 interview_id = Some ''i1''"
    by (simp_all add: find_field_def example_state_def alice_def)
  have e: "error (delete_interviews failing_gateway (Some ''alice@x.com'')) =
      Some (BackendError ''denied'')"
      "error (delete_user failing_gateway 1) = None"
    by (simp_all add: failing_gateway_def)
  have t: "toasts (deleteUser failing_gateway failing_gateway 1 example_state) =
      [ToastSuccess ''User deleted successfully'']"
  proof -
    have "error (list_users failing_gateway) = None"
        "data (list_users failing_gateway) = Some [eve]"
      by (simp_all add: failing_gateway_def)
    then have "\<And>s. toasts (fetchUsers failing_gateway s) = toasts s"
      by (simp add: fetchUsers_listing_succeeded)
    then show ?thesis
      by (subst deleteUser_root_succeeded [OF e(2)]) (simp add: example_state_def)
  qed
  have r: "requests example_state = []"
    by (simp add: example_state_def)
  from cascading_delete_best_effort
    [of failing_gateway failing_gateway 1 example_state "BackendError ''denied''" TypeError]
    f e t
  show ?thesis by (auto simp: r)
qed

section \<open>Properties of the rating calculator\<close>








lemma Math_round_nearest:
  "of_int (Math_round x) - 1 / 2 \<le> x \<and> x < of_int (Math_round x) + 1 / 2"
  unfolding Math_round_def by linarith














end
